theory Spec2Isabelle
  imports Main
begin

section \<open>Python values used by the Instagram client\<close>

text \<open>
  The client of \<^verbatim>\<open>post_instagram.py\<close> talks to the Graph API through the
  \<^verbatim>\<open>requests\<close> library and inspects the decoded JSON bodies with Python's
  \<^verbatim>\<open>in\<close>, subscripting, \<^verbatim>\<open>dict.get\<close> and \<^verbatim>\<open>str.join\<close>. A decoded body is a
  value of \<open>json\<close>; an object keeps its members as an association list that is read
  with \<open>map_of\<close>. Python strings are kept as their UTF-8 bytes. Numbers are integers:
  every operation below treats a float exactly as it treats an integer.
\<close>

datatype json =
    JNull
  | JBool bool
  | JNum int
  | JStr string
  | JArr "json list"
  | JObj "(string \<times> json) list"

datatype exc = ValueError string | IndexError | KeyError | TypeError | AttributeError

fun starts_with :: "string \<Rightarrow> string \<Rightarrow> bool" where
  "starts_with [] s = True"
| "starts_with (p # ps) [] = False"
| "starts_with (p # ps) (ch # cs) = (p = ch \<and> starts_with ps cs)"

fun substring :: "string \<Rightarrow> string \<Rightarrow> bool" where
  "substring p [] = (p = [])"
| "substring p (ch # cs) = (starts_with p (ch # cs) \<or> substring p cs)"

text \<open>\<^verbatim>\<open>key in value\<close> for a string key: key membership in a dict, element membership
  in a list, substring test in a string, \<^verbatim>\<open>TypeError\<close> for None, booleans and numbers.\<close>

fun py_in :: "string \<Rightarrow> json \<Rightarrow> exc + bool" where
  "py_in k (JObj kvs) = Inr (map_of kvs k \<noteq> None)"
| "py_in k (JArr xs) = Inr (JStr k \<in> set xs)"
| "py_in k (JStr s) = Inr (substring k s)"
| "py_in k JNull = Inl TypeError"
| "py_in k (JBool b) = Inl TypeError"
| "py_in k (JNum n) = Inl TypeError"

text \<open>\<^verbatim>\<open>value[key]\<close> for a string key: only a dict can be subscripted by a string.\<close>

fun py_getitem :: "json \<Rightarrow> string \<Rightarrow> exc + json" where
  "py_getitem (JObj kvs) k = (case map_of kvs k of None \<Rightarrow> Inl KeyError | Some v \<Rightarrow> Inr v)"
| "py_getitem (JArr xs) k = Inl TypeError"
| "py_getitem (JStr s) k = Inl TypeError"
| "py_getitem JNull k = Inl TypeError"
| "py_getitem (JBool b) k = Inl TypeError"
| "py_getitem (JNum n) k = Inl TypeError"

text \<open>\<^verbatim>\<open>value.get(key, default)\<close>: only a dict has the method.\<close>

fun py_get :: "json \<Rightarrow> string \<Rightarrow> json \<Rightarrow> exc + json" where
  "py_get (JObj kvs) k d = Inr (case map_of kvs k of None \<Rightarrow> d | Some v \<Rightarrow> v)"
| "py_get (JArr xs) k d = Inl AttributeError"
| "py_get (JStr s) k d = Inl AttributeError"
| "py_get JNull k d = Inl AttributeError"
| "py_get (JBool b) k d = Inl AttributeError"
| "py_get (JNum n) k d = Inl AttributeError"

text \<open>\<^verbatim>\<open>sep.join(items)\<close>: every item has to be a string, otherwise \<^verbatim>\<open>TypeError\<close>.\<close>

fun join :: "string \<Rightarrow> string list \<Rightarrow> string" where
  "join sep [] = []"
| "join sep [s] = s"
| "join sep (s # t # ts) = s @ sep @ join sep (t # ts)"

fun str_items :: "json list \<Rightarrow> string list option" where
  "str_items [] = Some []"
| "str_items (JStr s # xs) = map_option ((#) s) (str_items xs)"
| "str_items (JNull # xs) = None"
| "str_items (JBool b # xs) = None"
| "str_items (JNum n # xs) = None"
| "str_items (JArr ys # xs) = None"
| "str_items (JObj kvs # xs) = None"

definition py_join :: "string \<Rightarrow> json list \<Rightarrow> exc + string" where
  "py_join sep xs = (case str_items xs of None \<Rightarrow> Inl TypeError | Some ss \<Rightarrow> Inr (join sep ss))"

text \<open>\<^verbatim>\<open>xs[0]\<close> raises \<^verbatim>\<open>IndexError\<close> on the empty list.\<close>

definition py_first :: "'a list \<Rightarrow> exc + 'a" where
  "py_first xs = (case xs of [] \<Rightarrow> Inl IndexError | x # _ \<Rightarrow> Inr x)"

text \<open>Decimal formatting of a non-negative integer, and the format \<^verbatim>\<open>02d\<close>.\<close>

definition digit :: "nat \<Rightarrow> char" where
  "digit d = ''0123456789'' ! d"

function str_nat :: "nat \<Rightarrow> string" where
  "str_nat n = (if n < 10 then [digit n] else str_nat (n div 10) @ [digit (n mod 10)])"
  by pat_completeness auto
termination
  by (relation "measure id") auto

declare str_nat.simps [simp del]

definition fmt_02d :: "nat \<Rightarrow> string" where
  "fmt_02d n = (if n < 10 then ''0'' @ str_nat n else str_nat n)"


section \<open>The HTTP layer and the environment\<close>

text \<open>
  A request is the URL and the \<^verbatim>\<open>params\<close> dict handed to \<^verbatim>\<open>requests.post\<close>, in the
  order the source writes the keys. The server is any function of the calls made so far
  and the present call. It either gives no response (\<^verbatim>\<open>requests.post\<close> raises a
  \<^verbatim>\<open>RequestException\<close> that carries no response; the string is \<^verbatim>\<open>str(e)\<close>) or a response:
  its status code, the text of the \<^verbatim>\<open>HTTPError\<close> that \<^verbatim>\<open>raise_for_status\<close> builds for it,
  and what \<^verbatim>\<open>response.json()\<close> does: \<open>Inr\<close> the decoded value, or \<open>Inl\<close> the text of the
  \<^verbatim>\<open>JSONDecodeError\<close> it raises, which \<^verbatim>\<open>requests\<close> declares as a subclass of both
  \<^verbatim>\<open>RequestException\<close> and \<^verbatim>\<open>ValueError\<close>.
\<close>

record request =
  url :: string
  params :: "(string \<times> json) list"

record response =
  status_code :: nat
  http_error_text :: string
  json_body :: "string + json"

datatype reply = ConnectionFailed string | Responded response

datatype dow = Mon | Tue | Wed | Thu | Fri | Sat | Sun

record date =
  year :: nat
  month :: nat
  day :: nat
  weekday :: dow

text \<open>
  The environment of a call: the server, the value of \<^verbatim>\<open>datetime.now()\<close>, and Python's
  \<^verbatim>\<open>str\<close> on JSON values that are not strings (used only when an f-string formats one).
\<close>

record env =
  server :: "request list \<Rightarrow> request \<Rightarrow> reply"
  now :: date
  py_str :: "json \<Rightarrow> string"

datatype result = Success json string | Failure string

text \<open>
  What a statement of the \<^verbatim>\<open>try\<close> body does: it raises (a \<^verbatim>\<open>RequestException\<close> with
  its text and optional response, or another Python exception), it returns from
  \<^verbatim>\<open>post_image\<close>, or it goes on with a value. A program takes the list of requests
  issued so far and gives it back extended.
\<close>

datatype raised = Req string "response option" | Py exc

datatype 'a flow = Raise raised | Return result | Next 'a

type_synonym 'a prog = "request list \<Rightarrow> 'a flow \<times> request list"

definition yield :: "'a \<Rightarrow> 'a prog" where
  "yield a = (\<lambda>tr. (Next a, tr))"

definition return_result :: "result \<Rightarrow> 'a prog" where
  "return_result r = (\<lambda>tr. (Return r, tr))"

definition lift_py :: "exc + 'a \<Rightarrow> 'a prog" where
  "lift_py x = (\<lambda>tr. (case x of Inl e \<Rightarrow> Raise (Py e) | Inr a \<Rightarrow> Next a, tr))"

definition then_do :: "'a prog \<Rightarrow> ('a \<Rightarrow> 'b prog) \<Rightarrow> 'b prog" where
  "then_do m f = (\<lambda>tr. case m tr of
       (Next a, tr') \<Rightarrow> f a tr'
     | (Raise e, tr') \<Rightarrow> (Raise e, tr')
     | (Return r, tr') \<Rightarrow> (Return r, tr'))"

text \<open>
  The three lines every helper ends with:
  \<^verbatim>\<open>response = requests.post(url, params=params); response.raise_for_status();
  return response.json()\<close>.
\<close>

definition respond :: "env \<Rightarrow> request list \<Rightarrow> request \<Rightarrow> json flow" where
  "respond E tr rq =
     (case server E tr rq of
        ConnectionFailed text \<Rightarrow> Raise (Req text None)
      | Responded r \<Rightarrow>
          if 400 \<le> status_code r \<and> status_code r < 600
          then Raise (Req (http_error_text r) (Some r))
          else (case json_body r of
                  Inl text \<Rightarrow> Raise (Req text None)
                | Inr j \<Rightarrow> Next j))"

definition post :: "env \<Rightarrow> request \<Rightarrow> json prog" where
  "post E rq = (\<lambda>tr. (respond E tr rq, tr @ [rq]))"


section \<open>The client\<close>

record client =
  access_token :: string
  account_id :: string
  api_version :: string
  base_url :: string

definition credentials_message :: string where
  "credentials_message =
     ''Instagram '' @ [CHR 0xEC, CHR 0x9E, CHR 0x90, CHR 0xEA, CHR 0xB2, CHR 0xA9] @ '' '' @
     [CHR 0xEC, CHR 0xA6, CHR 0x9D, CHR 0xEB, CHR 0xAA, CHR 0x85, CHR 0xEC, CHR 0x9D, CHR 0xB4] @ '' '' @
     [CHR 0xEC, CHR 0x84, CHR 0xA4, CHR 0xEC, CHR 0xA0, CHR 0x95, CHR 0xEB, CHR 0x90, CHR 0x98,
      CHR 0xEC, CHR 0xA7, CHR 0x80] @ '' '' @
     [CHR 0xEC, CHR 0x95, CHR 0x8A, CHR 0xEC, CHR 0x95, CHR 0x98, CHR 0xEC, CHR 0x8A, CHR 0xB5,
      CHR 0xEB, CHR 0x8B, CHR 0x88, CHR 0xEB, CHR 0x8B, CHR 0xA4] @ ''. .env '' @
     [CHR 0xED, CHR 0x8C, CHR 0x8C, CHR 0xEC, CHR 0x9D, CHR 0xBC, CHR 0xEC, CHR 0x9D, CHR 0x84] @ '' '' @
     [CHR 0xED, CHR 0x99, CHR 0x95, CHR 0xEC, CHR 0x9D, CHR 0xB8, CHR 0xED, CHR 0x95, CHR 0xB4,
      CHR 0xEC, CHR 0xA3, CHR 0xBC, CHR 0xEC, CHR 0x84, CHR 0xB8, CHR 0xEC, CHR 0x9A, CHR 0x94] @ ''.''"

text \<open>\<^verbatim>\<open>not x\<close> for the result of \<^verbatim>\<open>os.getenv\<close>: true for None and for the empty string.\<close>

definition py_not :: "string option \<Rightarrow> bool" where
  "py_not x = (case x of None \<Rightarrow> True | Some s \<Rightarrow> s = [])"

text \<open>\<^verbatim>\<open>__init__\<close>; the two arguments are the values \<^verbatim>\<open>os.getenv\<close> gives for
  \<^verbatim>\<open>INSTAGRAM_ACCESS_TOKEN\<close> and \<^verbatim>\<open>INSTAGRAM_ACCOUNT_ID\<close>.\<close>

definition init :: "string option \<Rightarrow> string option \<Rightarrow> exc + client" where
  "init token account =
     (if py_not token \<or> py_not account then Inl (ValueError credentials_message)
      else (case (token, account) of
              (Some t, Some a) \<Rightarrow>
                Inr \<lparr>access_token = t, account_id = a, api_version = ''v18.0'',
                     base_url = ''https://graph.facebook.com/'' @ ''v18.0''\<rparr>
            | _ \<Rightarrow> Inl (ValueError credentials_message)))"

definition single_media_request :: "client \<Rightarrow> string \<Rightarrow> string \<Rightarrow> request" where
  "single_media_request c image_url caption =
     \<lparr>url = base_url c @ ''/'' @ account_id c @ ''/media'',
      params = [(''access_token'', JStr (access_token c)),
                (''image_url'', JStr image_url),
                (''caption'', JStr caption)]\<rparr>"

definition create_single_media :: "env \<Rightarrow> client \<Rightarrow> string \<Rightarrow> string \<Rightarrow> json prog" where
  "create_single_media E c image_url caption = post E (single_media_request c image_url caption)"

definition carousel_item_request :: "client \<Rightarrow> string \<Rightarrow> request" where
  "carousel_item_request c image_url =
     \<lparr>url = base_url c @ ''/'' @ account_id c @ ''/media'',
      params = [(''access_token'', JStr (access_token c)),
                (''image_url'', JStr image_url),
                (''is_carousel_item'', JBool True)]\<rparr>"

definition create_carousel_item :: "env \<Rightarrow> client \<Rightarrow> string \<Rightarrow> json prog" where
  "create_carousel_item E c image_url = post E (carousel_item_request c image_url)"

definition carousel_container_request :: "client \<Rightarrow> string \<Rightarrow> string \<Rightarrow> request" where
  "carousel_container_request c children caption =
     \<lparr>url = base_url c @ ''/'' @ account_id c @ ''/media'',
      params = [(''access_token'', JStr (access_token c)),
                (''media_type'', JStr ''CAROUSEL''),
                (''children'', JStr children),
                (''caption'', JStr caption)]\<rparr>"

definition create_carousel_container :: "env \<Rightarrow> client \<Rightarrow> json list \<Rightarrow> string \<Rightarrow> json prog" where
  "create_carousel_container E c children_ids caption =
     then_do (lift_py (py_join '','' children_ids))
       (\<lambda>children. post E (carousel_container_request c children caption))"

definition publish_request :: "client \<Rightarrow> json \<Rightarrow> request" where
  "publish_request c creation_id =
     \<lparr>url = base_url c @ ''/'' @ account_id c @ ''/media_publish'',
      params = [(''access_token'', JStr (access_token c)),
                (''creation_id'', creation_id)]\<rparr>"

definition publish_media :: "env \<Rightarrow> client \<Rightarrow> json \<Rightarrow> json prog" where
  "publish_media E c creation_id = post E (publish_request c creation_id)"

definition weekdays :: "string list" where
  "weekdays =
     [[CHR 0xEC, CHR 0x9B, CHR 0x94, CHR 0xEC, CHR 0x9A, CHR 0x94, CHR 0xEC, CHR 0x9D, CHR 0xBC],
      [CHR 0xED, CHR 0x99, CHR 0x94, CHR 0xEC, CHR 0x9A, CHR 0x94, CHR 0xEC, CHR 0x9D, CHR 0xBC],
      [CHR 0xEC, CHR 0x88, CHR 0x98, CHR 0xEC, CHR 0x9A, CHR 0x94, CHR 0xEC, CHR 0x9D, CHR 0xBC],
      [CHR 0xEB, CHR 0xAA, CHR 0xA9, CHR 0xEC, CHR 0x9A, CHR 0x94, CHR 0xEC, CHR 0x9D, CHR 0xBC],
      [CHR 0xEA, CHR 0xB8, CHR 0x88, CHR 0xEC, CHR 0x9A, CHR 0x94, CHR 0xEC, CHR 0x9D, CHR 0xBC],
      [CHR 0xED, CHR 0x86, CHR 0xA0, CHR 0xEC, CHR 0x9A, CHR 0x94, CHR 0xEC, CHR 0x9D, CHR 0xBC],
      [CHR 0xEC, CHR 0x9D, CHR 0xBC, CHR 0xEC, CHR 0x9A, CHR 0x94, CHR 0xEC, CHR 0x9D, CHR 0xBC]]"

text \<open>\<^verbatim>\<open>datetime.weekday()\<close>: Monday is 0, Sunday is 6.\<close>

fun weekday_index :: "dow \<Rightarrow> nat" where
  "weekday_index Mon = 0"
| "weekday_index Tue = 1"
| "weekday_index Wed = 2"
| "weekday_index Thu = 3"
| "weekday_index Fri = 4"
| "weekday_index Sat = 5"
| "weekday_index Sun = 6"

definition get_formatted_date :: "date \<Rightarrow> string" where
  "get_formatted_date d =
     str_nat (year d) @ [CHR 0xEB, CHR 0x85, CHR 0x84] @ '' '' @
     fmt_02d (month d) @ [CHR 0xEC, CHR 0x9B, CHR 0x94] @ '' '' @
     fmt_02d (day d) @ [CHR 0xEC, CHR 0x9D, CHR 0xBC] @ '' '' @
     weekdays ! weekday_index (weekday d) @
     '' MQ '' @ [CHR 0xEA, CHR 0xB8, CHR 0x80, CHR 0xEB, CHR 0xA1, CHR 0x9C, CHR 0xEB, CHR 0xB2, CHR 0x8C] @
     '' '' @ [CHR 0xEC, CHR 0xA6, CHR 0x9D, CHR 0xEA, CHR 0xB6, CHR 0x8C, CHR 0xEA, CHR 0xB0, CHR 0x80] @
     '' '' @ [CHR 0xEB, CHR 0x89, CHR 0xB4, CHR 0xEC, CHR 0x8A, CHR 0xA4]"

definition item_failed_message :: "nat \<Rightarrow> string" where
  "item_failed_message i =
     [CHR 0xEC, CHR 0xBA, CHR 0x90, CHR 0xEB, CHR 0x9F, CHR 0xAC, CHR 0xEC, CHR 0x85, CHR 0x80] @ '' '' @
     [CHR 0xEC, CHR 0x95, CHR 0x84, CHR 0xEC, CHR 0x9D, CHR 0xB4, CHR 0xED, CHR 0x85, CHR 0x9C] @ '' '' @
     str_nat i @ '' '' @
     [CHR 0xEC, CHR 0x83, CHR 0x9D, CHR 0xEC, CHR 0x84, CHR 0xB1] @ '' '' @
     [CHR 0xEC, CHR 0x8B, CHR 0xA4, CHR 0xED, CHR 0x8C, CHR 0xA8]"

definition no_container_id_message :: string where
  "no_container_id_message =
     [CHR 0xEB, CHR 0xAF, CHR 0xB8, CHR 0xEB, CHR 0x94, CHR 0x94, CHR 0xEC, CHR 0x96, CHR 0xB4] @ '' '' @
     [CHR 0xEC, CHR 0xBB, CHR 0xA8, CHR 0xED, CHR 0x85, CHR 0x8C, CHR 0xEC, CHR 0x9D, CHR 0xB4,
      CHR 0xEB, CHR 0x84, CHR 0x88] @ '' ID'' @ [CHR 0xEB, CHR 0xA5, CHR 0xBC] @ '' '' @
     [CHR 0xEB, CHR 0xB0, CHR 0x9B, CHR 0xEC, CHR 0xA7, CHR 0x80] @ '' '' @
     [CHR 0xEB, CHR 0xAA, CHR 0xBB, CHR 0xED, CHR 0x96, CHR 0x88, CHR 0xEC, CHR 0x8A, CHR 0xB5,
      CHR 0xEB, CHR 0x8B, CHR 0x88, CHR 0xEB, CHR 0x8B, CHR 0xA4]"

definition no_post_id_message :: string where
  "no_post_id_message =
     [CHR 0xEA, CHR 0xB2, CHR 0x8C, CHR 0xEC, CHR 0x8B, CHR 0x9C, CHR 0xEB, CHR 0xAC, CHR 0xBC] @
     '' ID'' @ [CHR 0xEB, CHR 0xA5, CHR 0xBC] @ '' '' @
     [CHR 0xEB, CHR 0xB0, CHR 0x9B, CHR 0xEC, CHR 0xA7, CHR 0x80] @ '' '' @
     [CHR 0xEB, CHR 0xAA, CHR 0xBB, CHR 0xED, CHR 0x96, CHR 0x88, CHR 0xEC, CHR 0x8A, CHR 0xB5,
      CHR 0xEB, CHR 0x8B, CHR 0x88, CHR 0xEB, CHR 0x8B, CHR 0xA4]"

definition status_message :: string where
  "status_message =
     [CHR 0xEC, CHR 0x9D, CHR 0xB4, CHR 0xEB, CHR 0xAF, CHR 0xB8, CHR 0xEC, CHR 0xA7, CHR 0x80,
      CHR 0xEA, CHR 0xB0, CHR 0x80] @ '' '' @
     [CHR 0xEC, CHR 0x84, CHR 0xB1, CHR 0xEA, CHR 0xB3, CHR 0xB5, CHR 0xEC, CHR 0xA0, CHR 0x81,
      CHR 0xEC, CHR 0x9C, CHR 0xBC, CHR 0xEB, CHR 0xA1, CHR 0x9C] @ '' Instagram'' @
     [CHR 0xEC, CHR 0x97, CHR 0x90] @ '' '' @
     [CHR 0xEC, CHR 0x97, CHR 0x85, CHR 0xEB, CHR 0xA1, CHR 0x9C, CHR 0xEB, CHR 0x93, CHR 0x9C,
      CHR 0xEB, CHR 0x90, CHR 0x98, CHR 0xEC, CHR 0x97, CHR 0x88, CHR 0xEC, CHR 0x8A, CHR 0xB5,
      CHR 0xEB, CHR 0x8B, CHR 0x88, CHR 0xEB, CHR 0x8B, CHR 0xA4] @ ''. '' @
     [CHR 0xEC, CHR 0x9B, CHR 0x90, CHR 0xEB, CHR 0xB3, CHR 0xB8] @ '' '' @
     [CHR 0xED, CHR 0x8C, CHR 0x8C, CHR 0xEC, CHR 0x9D, CHR 0xBC, CHR 0xEC, CHR 0x9D, CHR 0x80] @ '' '' @
     [CHR 0xEC, CHR 0x9D, CHR 0xB4, CHR 0xEC, CHR 0xA0, CHR 0x9C] @ '' '' @
     [CHR 0xEC, CHR 0x82, CHR 0xAD, CHR 0xEC, CHR 0xA0, CHR 0x9C, CHR 0xED, CHR 0x95, CHR 0xB4,
      CHR 0xEB, CHR 0x8F, CHR 0x84] @ '' '' @
     [CHR 0xEB, CHR 0x90, CHR 0xA9, CHR 0xEB, CHR 0x8B, CHR 0x88, CHR 0xEB, CHR 0x8B, CHR 0xA4] @ ''.''"

definition error_prefix :: string where
  "error_prefix =
     ''Instagram '' @
     [CHR 0xED, CHR 0x8F, CHR 0xAC, CHR 0xEC, CHR 0x8A, CHR 0xA4, CHR 0xED, CHR 0x8C, CHR 0x85] @ '' '' @
     [CHR 0xEC, CHR 0xA4, CHR 0x91] @ '' '' @
     [CHR 0xEC, CHR 0x98, CHR 0xA4, CHR 0xEB, CHR 0xA5, CHR 0x98] @ '' '' @
     [CHR 0xEB, CHR 0xB0, CHR 0x9C, CHR 0xEC, CHR 0x83, CHR 0x9D] @ '': ''"

text \<open>The argument of \<^verbatim>\<open>post_image\<close>: one URL, or a list of URLs.\<close>

datatype image_input = One string | Many "string list"

text \<open>
  The \<^verbatim>\<open>for i, image_url in enumerate(image_paths, 1)\<close> loop of the carousel branch,
  with the index and the \<^verbatim>\<open>children_ids\<close> collected so far.
\<close>

fun carousel_items :: "env \<Rightarrow> client \<Rightarrow> nat \<Rightarrow> string list \<Rightarrow> json list \<Rightarrow> json list prog" where
  "carousel_items E c i [] children_ids = yield children_ids"
| "carousel_items E c i (image_url # rest) children_ids =
     then_do (create_carousel_item E c image_url) (\<lambda>response.
     then_do (lift_py (py_in ''id'' response)) (\<lambda>has_id.
       if \<not> has_id then return_result (Failure (item_failed_message i))
       else then_do (lift_py (py_getitem response ''id'')) (\<lambda>child.
              carousel_items E c (Suc i) rest (children_ids @ [child]))))"

text \<open>
  The body of the \<^verbatim>\<open>try\<close> block of \<^verbatim>\<open>post_image\<close>, in its two parts: the branch
  that creates the container (the carousel for more than one URL, the single media
  otherwise), and the check of the container followed by the publication. The
  \<^verbatim>\<open>print\<close> calls, which only write progress lines to standard output, are left out.
\<close>

definition build_container :: "env \<Rightarrow> client \<Rightarrow> string list \<Rightarrow> string \<Rightarrow> json prog" where
  "build_container E c image_paths caption =
     (if length image_paths > 1
      then then_do (carousel_items E c 1 image_paths [])
             (\<lambda>children_ids. create_carousel_container E c children_ids caption)
      else then_do (lift_py (py_first image_paths))
             (\<lambda>image_url. create_single_media E c image_url caption))"

definition publish_container :: "env \<Rightarrow> client \<Rightarrow> json \<Rightarrow> result prog" where
  "publish_container E c container =
     then_do (lift_py (py_in ''id'' container)) (\<lambda>has_id.
       if \<not> has_id then return_result (Failure no_container_id_message)
       else then_do (lift_py (py_getitem container ''id'')) (\<lambda>creation_id.
            then_do (publish_media E c creation_id) (\<lambda>publish_data.
            then_do (lift_py (py_in ''id'' publish_data)) (\<lambda>has_post_id.
              if \<not> has_post_id then return_result (Failure no_post_id_message)
              else then_do (lift_py (py_getitem publish_data ''id'')) (\<lambda>post_id.
                     return_result (Success post_id status_message))))))"

definition post_image_try :: "env \<Rightarrow> client \<Rightarrow> image_input \<Rightarrow> string option \<Rightarrow> result prog" where
  "post_image_try E c image_paths0 caption0 =
     (let caption = (case caption0 of None \<Rightarrow> get_formatted_date (now E) | Some s \<Rightarrow> s);
          image_paths = (case image_paths0 of One s \<Rightarrow> [s] | Many xs \<Rightarrow> xs)
      in then_do (build_container E c image_paths caption) (publish_container E c))"

text \<open>The f-string \<^verbatim>\<open>f"{value}"\<close>: a string is inserted as it is, any other value through
  \<^verbatim>\<open>str\<close>.\<close>

definition py_format :: "env \<Rightarrow> json \<Rightarrow> string" where
  "py_format E v = (case v of JStr s \<Rightarrow> s | _ \<Rightarrow> py_str E v)"

text \<open>
  The handler \<^verbatim>\<open>except requests.exceptions.RequestException as e\<close>. \<^verbatim>\<open>e.response\<close> is
  None or a response object (which has the attribute \<^verbatim>\<open>json\<close>); a \<^verbatim>\<open>ValueError\<close> of
  \<^verbatim>\<open>e.response.json()\<close> is passed over; any other exception raised while the message is
  extracted leaves the handler.
\<close>

definition handle_request_exception :: "env \<Rightarrow> string \<Rightarrow> response option \<Rightarrow> exc + result" where
  "handle_request_exception E text resp =
     (case resp of
        None \<Rightarrow> Inr (Failure (error_prefix @ text))
      | Some r \<Rightarrow>
         (case json_body r of
            Inl decode_error \<Rightarrow> Inr (Failure (error_prefix @ text))
          | Inr error_data \<Rightarrow>
             (case py_in ''error'' error_data of
                Inl x \<Rightarrow> Inl x
              | Inr has_error \<Rightarrow>
                 if \<not> has_error then Inr (Failure (error_prefix @ text))
                 else (case py_getitem error_data ''error'' of
                         Inl x \<Rightarrow> Inl x
                       | Inr err \<Rightarrow>
                          (case py_get err ''message'' (JStr text) of
                             Inl x \<Rightarrow> Inl x
                           | Inr message \<Rightarrow>
                               Inr (Failure (error_prefix @ py_format E message)))))))"

text \<open>
  \<^verbatim>\<open>post_image\<close>: the value returned to the caller (\<open>Inr\<close>) or the exception that leaves
  the method (\<open>Inl\<close>), and the requests issued, in order.
\<close>

definition post_image ::
  "env \<Rightarrow> client \<Rightarrow> image_input \<Rightarrow> string option \<Rightarrow> (exc + result) \<times> request list" where
  "post_image E c image_paths caption =
     (case post_image_try E c image_paths caption [] of
        (Next r, tr) \<Rightarrow> (Inr r, tr)
      | (Return r, tr) \<Rightarrow> (Inr r, tr)
      | (Raise (Req text resp), tr) \<Rightarrow> (handle_request_exception E text resp, tr)
      | (Raise (Py x), tr) \<Rightarrow> (Inl x, tr))"

section \<open>Notions used to state the properties\<close>

text \<open>The call \<open>rq\<close>, made after the calls \<open>tr\<close>, is answered with a status that
  \<^verbatim>\<open>raise_for_status\<close> lets pass and a body that decodes to \<open>j\<close>.\<close>

definition returns_json :: "env \<Rightarrow> request list \<Rightarrow> request \<Rightarrow> json \<Rightarrow> bool" where
  "returns_json E tr rq j =
     (case server E tr rq of
        ConnectionFailed text \<Rightarrow> False
      | Responded r \<Rightarrow> \<not> (400 \<le> status_code r \<and> status_code r < 600) \<and> json_body r = Inr j)"

text \<open>A response body that is a JSON object with the member \<open>id\<close>, or without it.\<close>

fun has_id :: "json \<Rightarrow> json \<Rightarrow> bool" where
  "has_id (JObj kvs) v = (map_of kvs ''id'' = Some v)"
| "has_id JNull v = False"
| "has_id (JBool b) v = False"
| "has_id (JNum n) v = False"
| "has_id (JStr s) v = False"
| "has_id (JArr xs) v = False"

fun lacks_id :: "json \<Rightarrow> bool" where
  "lacks_id (JObj kvs) = (map_of kvs ''id'' = None)"
| "lacks_id JNull = False"
| "lacks_id (JBool b) = False"
| "lacks_id (JNum n) = False"
| "lacks_id (JStr s) = False"
| "lacks_id (JArr xs) = False"

text \<open>
  The wire protocol: a body that decodes is a JSON object; on success its \<open>id\<close>, when
  present, is a string; on an error status its \<open>error\<close>, when present, is an object.
\<close>

fun is_str :: "json \<Rightarrow> bool" where
  "is_str (JStr s) = True"
| "is_str JNull = False"
| "is_str (JBool b) = False"
| "is_str (JNum n) = False"
| "is_str (JArr xs) = False"
| "is_str (JObj kvs) = False"

fun is_obj :: "json \<Rightarrow> bool" where
  "is_obj (JObj kvs) = True"
| "is_obj JNull = False"
| "is_obj (JBool b) = False"
| "is_obj (JNum n) = False"
| "is_obj (JStr s) = False"
| "is_obj (JArr xs) = False"

fun success_body :: "json \<Rightarrow> bool" where
  "success_body (JObj kvs) = (case map_of kvs ''id'' of None \<Rightarrow> True | Some v \<Rightarrow> is_str v)"
| "success_body JNull = False"
| "success_body (JBool b) = False"
| "success_body (JNum n) = False"
| "success_body (JStr s) = False"
| "success_body (JArr xs) = False"

fun error_body :: "json \<Rightarrow> bool" where
  "error_body (JObj kvs) = (case map_of kvs ''error'' of None \<Rightarrow> True | Some v \<Rightarrow> is_obj v)"
| "error_body JNull = False"
| "error_body (JBool b) = False"
| "error_body (JNum n) = False"
| "error_body (JStr s) = False"
| "error_body (JArr xs) = False"

definition error_response :: "response option \<Rightarrow> bool" where
  "error_response resp =
     (case resp of
        None \<Rightarrow> True
      | Some r \<Rightarrow> (case json_body r of Inl text \<Rightarrow> True | Inr j \<Rightarrow> error_body j))"

definition wire_protocol :: "reply \<Rightarrow> bool" where
  "wire_protocol rp =
     (case rp of
        ConnectionFailed text \<Rightarrow> True
      | Responded r \<Rightarrow>
          (case json_body r of
             Inl text \<Rightarrow> True
           | Inr j \<Rightarrow>
               if 400 \<le> status_code r \<and> status_code r < 600 then error_body j
               else success_body j))"

text \<open>A flow that raises no Python exception and only request exceptions whose response
  follows the protocol, and that goes on only with values satisfying \<open>P\<close>.\<close>

fun flow_ok :: "('a \<Rightarrow> bool) \<Rightarrow> 'a flow \<Rightarrow> bool" where
  "flow_ok P (Next a) = P a"
| "flow_ok P (Return r) = True"
| "flow_ok P (Raise (Py x)) = False"
| "flow_ok P (Raise (Req text resp)) = error_response resp"




section \<open>Example exchanges\<close>

text \<open>A server that answers the k-th call of an exchange with the k-th reply of a script,
  and fails to connect once the script is used up.\<close>

definition scripted :: "reply list \<Rightarrow> request list \<Rightarrow> request \<Rightarrow> reply" where
  "scripted rs tr rq = (if length tr < length rs then rs ! length tr else ConnectionFailed ''timed out'')"

definition ok_reply :: "json \<Rightarrow> reply" where
  "ok_reply j = Responded \<lparr>status_code = 200, http_error_text = [], json_body = Inr j\<rparr>"

definition error_reply :: "nat \<Rightarrow> string \<Rightarrow> json \<Rightarrow> reply" where
  "error_reply code text j = Responded \<lparr>status_code = code, http_error_text = text, json_body = Inr j\<rparr>"

definition with_id :: "string \<Rightarrow> json" where
  "with_id s = JObj [(''id'', JStr s)]"

text \<open>A stand-in for Python's \<^verbatim>\<open>str\<close>, exact on None, booleans and integers; the examples
  never format a list or a dict.\<close>

fun example_str :: "json \<Rightarrow> string" where
  "example_str JNull = ''None''"
| "example_str (JBool b) = (if b then ''True'' else ''False'')"
| "example_str (JNum n) = (if n < 0 then ''-'' @ str_nat (nat (- n)) else str_nat (nat n))"
| "example_str (JStr s) = s"
| "example_str (JArr xs) = []"
| "example_str (JObj kvs) = []"

definition example_env :: "reply list \<Rightarrow> env" where
  "example_env rs =
     \<lparr>server = scripted rs,
      now = \<lparr>year = 2024, month = 3, day = 5, weekday = Tue\<rparr>,
      py_str = example_str\<rparr>"

definition example_client :: client where
  "example_client =
     \<lparr>access_token = ''token'', account_id = ''17841400000000000'', api_version = ''v18.0'',
      base_url = ''https://graph.facebook.com/v18.0''\<rparr>"


section \<open>Properties\<close>

subsection \<open>Running the programs\<close>

lemma post_returns: "returns_json E tr rq j \<Longrightarrow> post E rq tr = (Next j, tr @ [rq])"
  by (auto simp: returns_json_def post_def respond_def split: reply.splits)

lemma has_id_in: "has_id j v \<Longrightarrow> py_in ''id'' j = Inr True \<and> py_getitem j ''id'' = Inr v"
  by (cases j) auto

lemma lacks_id_in: "lacks_id j \<Longrightarrow> py_in ''id'' j = Inr False"
  by (cases j) auto

lemma str_items_map: "str_items (map JStr ss) = Some ss"
  by (induction ss) auto

lemma py_join_strs: "py_join sep (map JStr ss) = Inr (join sep ss)"
  by (simp add: py_join_def str_items_map)

lemma carousel_items_all:
  assumes "length vs = length us"
    and "\<forall>k<length us. \<exists>j. returns_json E (tr @ map (carousel_item_request c) (take k us))
            (carousel_item_request c (us ! k)) j \<and> has_id j (vs ! k)"
  shows "carousel_items E c i us ids tr = (Next (ids @ vs), tr @ map (carousel_item_request c) us)"
  using assms
proof (induction us arbitrary: vs i ids tr)
  case Nil
  then show ?case by (simp add: yield_def)
next
  case (Cons u us)
  then obtain v vs' where vs: "vs = v # vs'" by (cases vs) auto
  from Cons.prems(2) have "\<exists>j. returns_json E (tr @ map (carousel_item_request c) (take 0 (u # us)))
            (carousel_item_request c ((u # us) ! 0)) j \<and> has_id j (vs ! 0)"
    by blast
  then obtain j where j: "returns_json E tr (carousel_item_request c u) j" "has_id j v"
    using vs by auto
  have rest: "\<forall>k<length us. \<exists>j. returns_json E ((tr @ [carousel_item_request c u]) @ map (carousel_item_request c) (take k us))
            (carousel_item_request c (us ! k)) j \<and> has_id j (vs' ! k)"
  proof (intro allI impI)
    fix k assume "k < length us"
    then have "Suc k < length (u # us)" by simp
    with Cons.prems(2) have "\<exists>j. returns_json E (tr @ map (carousel_item_request c) (take (Suc k) (u # us)))
            (carousel_item_request c ((u # us) ! Suc k)) j \<and> has_id j (vs ! Suc k)"
      by blast
    then show "\<exists>j. returns_json E ((tr @ [carousel_item_request c u]) @ map (carousel_item_request c) (take k us))
            (carousel_item_request c (us ! k)) j \<and> has_id j (vs' ! k)"
      using vs by simp
  qed
  have len: "length vs' = length us" using Cons.prems(1) vs by simp
  have ih: "carousel_items E c (Suc i) us (ids @ [v]) (tr @ [carousel_item_request c u])
      = (Next ((ids @ [v]) @ vs'), (tr @ [carousel_item_request c u]) @ map (carousel_item_request c) us)"
    by (rule Cons.IH[OF len rest])
  show ?case
    using post_returns[OF j(1)] has_id_in[OF j(2)] ih vs
    by (simp add: then_do_def lift_py_def create_carousel_item_def)
qed

lemma carousel_items_stop:
  assumes "n < length us"
    and "\<forall>k<n. \<exists>j v. returns_json E (tr @ map (carousel_item_request c) (take k us))
            (carousel_item_request c (us ! k)) j \<and> has_id j v"
    and "returns_json E (tr @ map (carousel_item_request c) (take n us))
            (carousel_item_request c (us ! n)) j"
    and "lacks_id j"
  shows "carousel_items E c i us ids tr =
     (Return (Failure (item_failed_message (i + n))),
      tr @ map (carousel_item_request c) (take (Suc n) us))"
  using assms
proof (induction us arbitrary: n i ids tr)
  case Nil
  then show ?case by simp
next
  case (Cons u us)
  show ?case
  proof (cases n)
    case 0
    with Cons.prems(3) have "returns_json E tr (carousel_item_request c u) j" by simp
    from post_returns[OF this] lacks_id_in[OF Cons.prems(4)] 0 show ?thesis
      by (simp add: then_do_def lift_py_def create_carousel_item_def return_result_def)
  next
    case (Suc m)
    from Cons.prems(2) Suc have "\<exists>j v. returns_json E (tr @ map (carousel_item_request c) (take 0 (u # us)))
            (carousel_item_request c ((u # us) ! 0)) j \<and> has_id j v"
      by blast
    then obtain j0 v0 where j0: "returns_json E tr (carousel_item_request c u) j0" "has_id j0 v0"
      by auto
    have m: "m < length us" using Cons.prems(1) Suc by simp
    have before: "\<forall>k<m. \<exists>j v. returns_json E ((tr @ [carousel_item_request c u]) @ map (carousel_item_request c) (take k us))
            (carousel_item_request c (us ! k)) j \<and> has_id j v"
    proof (intro allI impI)
      fix k assume "k < m"
      then have "Suc k < n" using Suc by simp
      with Cons.prems(2) have "\<exists>j v. returns_json E (tr @ map (carousel_item_request c) (take (Suc k) (u # us)))
            (carousel_item_request c ((u # us) ! Suc k)) j \<and> has_id j v"
        by blast
      then show "\<exists>j v. returns_json E ((tr @ [carousel_item_request c u]) @ map (carousel_item_request c) (take k us))
            (carousel_item_request c (us ! k)) j \<and> has_id j v"
        by simp
    qed
    have at: "returns_json E ((tr @ [carousel_item_request c u]) @ map (carousel_item_request c) (take m us))
            (carousel_item_request c (us ! m)) j"
      using Cons.prems(3) Suc by simp
    have ih: "carousel_items E c (Suc i) us (ids @ [v0]) (tr @ [carousel_item_request c u]) =
     (Return (Failure (item_failed_message (Suc i + m))),
      (tr @ [carousel_item_request c u]) @ map (carousel_item_request c) (take (Suc m) us))"
      by (rule Cons.IH[OF m before at Cons.prems(4)])
    show ?thesis
      using post_returns[OF j0(1)] has_id_in[OF j0(2)] ih Suc
      by (simp add: then_do_def lift_py_def create_carousel_item_def)
  qed
qed

lemma build_single:
  "build_container E c [u] cap tr = post E (single_media_request c u cap) tr"
  by (simp add: build_container_def then_do_def lift_py_def py_first_def create_single_media_def)

lemma build_carousel:
  assumes "1 < length us" "length ids = length us"
    and "\<forall>k<length us. \<exists>j. returns_json E (tr @ map (carousel_item_request c) (take k us))
            (carousel_item_request c (us ! k)) j \<and> has_id j (JStr (ids ! k))"
  shows "build_container E c us cap tr =
     post E (carousel_container_request c (join '','' ids) cap) (tr @ map (carousel_item_request c) us)"
proof -
  have "carousel_items E c 1 us [] tr = (Next ([] @ map JStr ids), tr @ map (carousel_item_request c) us)"
    by (rule carousel_items_all) (use assms in auto)
  then show ?thesis using assms(1)
    by (simp add: build_container_def then_do_def create_carousel_container_def lift_py_def py_join_strs)
qed


lemma publish_no_post_id:
  assumes "has_id container creation_id"
    and "returns_json E tr (publish_request c creation_id) publish_data"
    and "lacks_id publish_data"
  shows "publish_container E c container tr =
     (Return (Failure no_post_id_message), tr @ [publish_request c creation_id])"
  using has_id_in[OF assms(1)] post_returns[OF assms(2)] lacks_id_in[OF assms(3)]
  by (simp add: publish_container_def then_do_def lift_py_def return_result_def publish_media_def)

lemma publish_success:
  assumes "has_id container creation_id"
    and "returns_json E tr (publish_request c creation_id) publish_data"
    and "has_id publish_data post_id"
  shows "publish_container E c container tr =
     (Return (Success post_id status_message), tr @ [publish_request c creation_id])"
  using has_id_in[OF assms(1)] post_returns[OF assms(2)] has_id_in[OF assms(3)]
  by (simp add: publish_container_def then_do_def lift_py_def return_result_def publish_media_def)


lemma post_image_run:
  "post_image E c image_paths caption =
     (case then_do (build_container E c (case image_paths of One s \<Rightarrow> [s] | Many xs \<Rightarrow> xs)
              (case caption of None \<Rightarrow> get_formatted_date (now E) | Some s \<Rightarrow> s))
            (publish_container E c) [] of
        (Next r, tr) \<Rightarrow> (Inr r, tr)
      | (Return r, tr) \<Rightarrow> (Inr r, tr)
      | (Raise (Req text resp), tr) \<Rightarrow> (handle_request_exception E text resp, tr)
      | (Raise (Py x), tr) \<Rightarrow> (Inl x, tr))"
  by (simp add: post_image_def post_image_try_def)


subsection \<open>Evaluating the examples\<close>

lemmas run_defs =
  post_image_def post_image_try_def build_container_def publish_container_def
  create_single_media_def create_carousel_item_def create_carousel_container_def publish_media_def
  then_do_def lift_py_def return_result_def yield_def post_def respond_def py_first_def py_join_def
  handle_request_exception_def py_format_def Let_def
  example_env_def scripted_def ok_reply_def error_reply_def with_id_def

lemmas example_defs = returns_json_def example_env_def scripted_def ok_reply_def with_id_def

lemma scripted_wire:
  "list_all wire_protocol rs \<Longrightarrow> wire_protocol (scripted rs tr rq)"
  by (simp add: scripted_def wire_protocol_def list_all_length)

lemma example_items:
  "\<forall>k<length [''https://example.com/a.jpg'', ''https://example.com/b.jpg''].
     \<exists>j. returns_json (example_env (ok_reply (with_id ''101'') # ok_reply (with_id ''102'') # rs))
            (map (carousel_item_request example_client)
               (take k [''https://example.com/a.jpg'', ''https://example.com/b.jpg'']))
            (carousel_item_request example_client
               ([''https://example.com/a.jpg'', ''https://example.com/b.jpg''] ! k)) j
          \<and> has_id j (JStr ([''101'', ''102''] ! k))"
  by (simp add: All_less_Suc returns_json_def example_env_def scripted_def ok_reply_def with_id_def)

subsection \<open>Decimal numerals\<close>

lemma str_nat_not_empty: "str_nat n \<noteq> []"
  by (subst str_nat.simps) simp

lemma digit_inj: "a < 10 \<Longrightarrow> b < 10 \<Longrightarrow> digit a = digit b \<Longrightarrow> a = b"
  unfolding digit_def
  by (subst (asm) nth_eq_iff_index_eq) simp_all

lemma str_nat_inj: "str_nat a = str_nat b \<Longrightarrow> a = b"
proof (induction a arbitrary: b rule: str_nat.induct)
  case (1 n)
  show ?case
  proof (cases "n < 10")
    case True
    show ?thesis
    proof (cases "b < 10")
      case b: True
      from "1.prems" True b have "digit n = digit b"
        by (simp add: str_nat.simps[of n] str_nat.simps[of b])
      with True b show ?thesis by (rule digit_inj)
    next
      case False
      with "1.prems" True have "str_nat (b div 10) = []"
        by (simp add: str_nat.simps[of n] str_nat.simps[of b])
      with str_nat_not_empty show ?thesis by blast
    qed
  next
    case False
    show ?thesis
    proof (cases "b < 10")
      case True
      with "1.prems" False have "str_nat (n div 10) = []"
        by (simp add: str_nat.simps[of n] str_nat.simps[of b])
      with str_nat_not_empty show ?thesis by blast
    next
      case b: False
      from "1.prems" False b have eq: "str_nat (n div 10) = str_nat (b div 10)"
        "digit (n mod 10) = digit (b mod 10)"
        by (simp_all add: str_nat.simps[of n] str_nat.simps[of b])
      from "1.IH"[OF False eq(1)] have d: "n div 10 = b div 10" .
      have m: "n mod 10 = b mod 10"
        by (rule digit_inj[OF _ _ eq(2)]) simp_all
      from d m show ?thesis by (metis div_mult_mod_eq)
    qed
  qed
qed

lemma item_failed_message_inj: "item_failed_message a = item_failed_message b \<Longrightarrow> a = b"
  by (simp add: item_failed_message_def str_nat_inj)

subsection \<open>Requests issued\<close>










subsection \<open>Flows under the wire protocol\<close>

lemma respond_ok:
  "wire_protocol (server E tr rq) \<Longrightarrow> flow_ok success_body (respond E tr rq)"
  by (auto simp: wire_protocol_def respond_def error_response_def split: reply.splits sum.splits)

lemma then_do_ok:
  assumes "flow_ok P (fst (m tr))"
    and "\<And>a tr'. P a \<Longrightarrow> flow_ok Q (fst (f a tr'))"
  shows "flow_ok Q (fst (then_do m f tr))"
proof -
  obtain x tr' where m: "m tr = (x, tr')" by (cases "m tr")
  show ?thesis
  proof (cases x)
    case (Next a)
    with assms m show ?thesis by (simp add: then_do_def)
  next
    case (Raise e)
    with assms(1) m show ?thesis by (cases e) (simp_all add: then_do_def)
  next
    case (Return r)
    with m show ?thesis by (simp add: then_do_def)
  qed
qed

lemma success_body_id:
  "success_body j \<Longrightarrow>
   \<exists>b. py_in ''id'' j = Inr b \<and> (b \<longrightarrow> (\<exists>s. py_getitem j ''id'' = Inr (JStr s)))"
proof (cases j)
  case (JObj kvs)
  assume "success_body j"
  with JObj show ?thesis
    by (cases "map_of kvs ''id''") (auto elim: is_str.elims)
qed auto

lemma items_ok:
  assumes "\<forall>tr rq. wire_protocol (server E tr rq)" and "list_all is_str ids"
  shows "flow_ok (list_all is_str) (fst (carousel_items E c i us ids tr))"
  using assms(2)
proof (induction us arbitrary: i ids tr)
  case Nil
  then show ?case by (simp add: yield_def)
next
  case (Cons u us)
  show ?case
    unfolding carousel_items.simps
  proof (rule then_do_ok[where P = success_body])
    show "flow_ok success_body (fst (create_carousel_item E c u tr))"
      using assms(1) by (simp add: create_carousel_item_def post_def respond_ok)
  next
    fix response tr'
    assume "success_body response"
    then obtain b where b: "py_in ''id'' response = Inr b"
      "b \<longrightarrow> (\<exists>s. py_getitem response ''id'' = Inr (JStr s))"
      using success_body_id by blast
    show "flow_ok (list_all is_str)
          (fst (then_do (lift_py (py_in ''id'' response))
                 (\<lambda>has_id.
                     if \<not> has_id then return_result (Failure (item_failed_message i))
                     else then_do (lift_py (py_getitem response ''id''))
                           (\<lambda>child. carousel_items E c (Suc i) us (ids @ [child])))
                 tr'))"
    proof (cases b)
      case False
      with b show ?thesis by (simp add: then_do_def lift_py_def return_result_def)
    next
      case True
      with b obtain s where s: "py_getitem response ''id'' = Inr (JStr s)" by blast
      have "list_all is_str (ids @ [JStr s])" using Cons.prems by simp
      from Cons.IH[OF this] b True s show ?thesis
        by (simp add: then_do_def lift_py_def)
    qed
  qed
qed

lemma str_items_strs: "list_all is_str xs \<Longrightarrow> \<exists>ss. str_items xs = Some ss"
proof (induction xs)
  case Nil
  then show ?case by simp
next
  case (Cons x xs)
  then show ?case by (cases x) auto
qed

lemma build_ok:
  assumes "\<forall>tr rq. wire_protocol (server E tr rq)" and "us \<noteq> []"
  shows "flow_ok success_body (fst (build_container E c us cap tr))"
proof (cases "1 < length us")
  case True
  have "flow_ok success_body
      (fst (then_do (carousel_items E c 1 us [])
             (\<lambda>children_ids. create_carousel_container E c children_ids cap) tr))"
  proof (rule then_do_ok[where P = "list_all is_str"])
    show "flow_ok (list_all is_str) (fst (carousel_items E c 1 us [] tr))"
      by (rule items_ok[OF assms(1)]) simp
  next
    fix children_ids :: "json list" and tr'
    assume "list_all is_str children_ids"
    then obtain ss where "str_items children_ids = Some ss"
      using str_items_strs by blast
    then show "flow_ok success_body (fst (create_carousel_container E c children_ids cap tr'))"
      using assms(1)
      by (simp add: create_carousel_container_def then_do_def lift_py_def py_join_def post_def respond_ok)
  qed
  with True show ?thesis by (simp add: build_container_def)
next
  case False
  with assms(2) obtain u where "us = [u]" by (cases us) auto
  then show ?thesis using assms(1)
    by (simp add: build_single post_def respond_ok)
qed

lemma publish_ok:
  assumes "\<forall>tr rq. wire_protocol (server E tr rq)" and "success_body container"
  shows "flow_ok (\<lambda>r. True) (fst (publish_container E c container tr))"
proof -
  obtain b where b: "py_in ''id'' container = Inr b"
    "b \<longrightarrow> (\<exists>s. py_getitem container ''id'' = Inr (JStr s))"
    using success_body_id[OF assms(2)] by blast
  show ?thesis
  proof (cases b)
    case False
    with b show ?thesis
      by (simp add: publish_container_def then_do_def lift_py_def return_result_def)
  next
    case True
    with b obtain s where s: "py_getitem container ''id'' = Inr (JStr s)" by blast
    have "flow_ok (\<lambda>r. True)
       (fst (then_do (publish_media E c (JStr s)) (\<lambda>publish_data.
            then_do (lift_py (py_in ''id'' publish_data)) (\<lambda>has_post_id.
              if \<not> has_post_id then return_result (Failure no_post_id_message)
              else then_do (lift_py (py_getitem publish_data ''id'')) (\<lambda>post_id.
                     return_result (Success post_id status_message)))) tr))"
    proof (rule then_do_ok[where P = success_body])
      show "flow_ok success_body (fst (publish_media E c (JStr s) tr))"
        using assms(1) by (simp add: publish_media_def post_def respond_ok)
    next
      fix publish_data tr'
      assume "success_body publish_data"
      then obtain b' where "py_in ''id'' publish_data = Inr b'"
        "b' \<longrightarrow> (\<exists>s. py_getitem publish_data ''id'' = Inr (JStr s))"
        using success_body_id by blast
      then show "flow_ok (\<lambda>r. True)
          (fst (then_do (lift_py (py_in ''id'' publish_data)) (\<lambda>has_post_id.
              if \<not> has_post_id then return_result (Failure no_post_id_message)
              else then_do (lift_py (py_getitem publish_data ''id'')) (\<lambda>post_id.
                     return_result (Success post_id status_message))) tr'))"
        by (cases b') (auto simp: then_do_def lift_py_def return_result_def)
    qed
    with b True s show ?thesis
      by (simp add: publish_container_def then_do_def lift_py_def)
  qed
qed

lemma try_ok:
  assumes "\<forall>tr rq. wire_protocol (server E tr rq)" and "image_paths \<noteq> Many []"
  shows "flow_ok (\<lambda>r. True) (fst (post_image_try E c image_paths caption []))"
proof -
  have ne: "(case image_paths of One s \<Rightarrow> [s] | Many xs \<Rightarrow> xs) \<noteq> []"
    using assms(2) by (cases image_paths) auto
  show ?thesis
    unfolding post_image_try_def Let_def
    by (rule then_do_ok[where P = success_body])
       (simp_all add: build_ok[OF assms(1) ne] publish_ok[OF assms(1)])
qed

lemma handler_ok:
  "error_response resp \<Longrightarrow> \<exists>m. handle_request_exception E text resp = Inr (Failure m)"
proof (cases resp)
  case None
  then show ?thesis by (simp add: handle_request_exception_def)
next
  case (Some r)
  assume er: "error_response resp"
  show ?thesis
  proof (cases "json_body r")
    case (Inl t)
    with Some show ?thesis by (simp add: handle_request_exception_def)
  next
    case (Inr j)
    with Some er have eb: "error_body j" by (simp add: error_response_def)
    then obtain kvs where j: "j = JObj kvs" by (cases j) auto
    show ?thesis
    proof (cases "map_of kvs ''error''")
      case None
      with Some Inr j show ?thesis by (simp add: handle_request_exception_def)
    next
      case (Some v)
      with eb j obtain e where "v = JObj e" by (cases v) auto
      with Some \<open>resp = Some r\<close> Inr j show ?thesis
        by (simp add: handle_request_exception_def)
    qed
  qed
qed

subsection \<open>Traces of the two branches\<close>


lemma single_published:
  assumes "image_paths = One u \<or> image_paths = Many [u]"
    and "cap = (case caption of None \<Rightarrow> get_formatted_date (now E) | Some s \<Rightarrow> s)"
    and "returns_json E [] (single_media_request c u cap) container"
    and "has_id container creation_id"
    and "returns_json E [single_media_request c u cap] (publish_request c creation_id) publish_data"
    and "has_id publish_data post_id"
  shows "post_image E c image_paths caption =
     (Inr (Success post_id status_message),
      [single_media_request c u cap, publish_request c creation_id])"
proof -
  have "publish_container E c container [single_media_request c u cap] =
      (Return (Success post_id status_message),
       [single_media_request c u cap] @ [publish_request c creation_id])"
    by (rule publish_success[OF assms(4,5,6)])
  with assms(1,2) post_returns[OF assms(3)] show ?thesis
    by (auto simp: post_image_run build_single then_do_def)
qed



lemma example_date: "get_formatted_date \<lparr>year = 2024, month = 3, day = 5, weekday = Tue\<rparr> =
   ''2024'' @ [CHR 0xEB, CHR 0x85, CHR 0x84] @ '' 03'' @ [CHR 0xEC, CHR 0x9B, CHR 0x94] @
   '' 05'' @ [CHR 0xEC, CHR 0x9D, CHR 0xBC] @ '' '' @
   [CHR 0xED, CHR 0x99, CHR 0x94, CHR 0xEC, CHR 0x9A, CHR 0x94, CHR 0xEC, CHR 0x9D, CHR 0xBC] @
   '' MQ '' @ [CHR 0xEA, CHR 0xB8, CHR 0x80, CHR 0xEB, CHR 0xA1, CHR 0x9C, CHR 0xEB, CHR 0xB2, CHR 0x8C] @
   '' '' @ [CHR 0xEC, CHR 0xA6, CHR 0x9D, CHR 0xEA, CHR 0xB6, CHR 0x8C, CHR 0xEA, CHR 0xB0, CHR 0x80] @
   '' '' @ [CHR 0xEB, CHR 0x89, CHR 0xB4, CHR 0xEC, CHR 0x8A, CHR 0xA4]"
  by (simp add: get_formatted_date_def fmt_02d_def str_nat.simps digit_def weekdays_def)

subsection \<open>Failures are returned as records\<close>

text \<open>
  Claim C1 says that \<^verbatim>\<open>post_image\<close> never raises for one URL or a non-empty list of
  URLs. As stated this fails: the handler catches only \<^verbatim>\<open>RequestException\<close>, and the
  extraction of the message in the handler can raise. With an HTTP 400 whose body is
  \<^verbatim>\<open>{"error": "Invalid URL"}\<close> the call \<^verbatim>\<open>error_data['error'].get\<close> raises
  \<^verbatim>\<open>AttributeError\<close> inside the handler; with a 200 whose body is \<^verbatim>\<open>null\<close> the test
  \<^verbatim>\<open>"id" not in container\<close> raises \<^verbatim>\<open>TypeError\<close>. Both leave \<^verbatim>\<open>post_image\<close>.
\<close>

theorem post_image_raises_counterexample:
  "fst (post_image
         (example_env [error_reply 400 ''400 Client Error: Bad Request''
                         (JObj [(''error'', JStr ''Invalid URL'')])])
         example_client (One ''https://example.com/a.jpg'') (Some ''hello'')) = Inl AttributeError
   \<and> fst (post_image (example_env [ok_reply JNull])
         example_client (One ''https://example.com/a.jpg'') (Some ''hello'')) = Inl TypeError"
  by (simp add: run_defs)

text \<open>
  Claim C1, amended: if every reply of the server follows the wire protocol (a decoded
  body is a JSON object, an \<open>id\<close> is a string, an \<open>error\<close> member is an object), then for
  one URL or a non-empty list of URLs, with any caption, \<^verbatim>\<open>post_image\<close> returns a record
  and raises nothing; and whenever the \<^verbatim>\<open>try\<close> body raised a request exception (a
  connection failure, an error status, an undecodable body), the record is a failure
  record.
\<close>

theorem post_image_returns_record:
  assumes "\<forall>tr rq. wire_protocol (server E tr rq)" and "image_paths \<noteq> Many []"
  shows "(\<exists>r. fst (post_image E c image_paths caption) = Inr r) \<and>
         (\<forall>text resp. fst (post_image_try E c image_paths caption []) = Raise (Req text resp) \<longrightarrow>
            (\<exists>m. fst (post_image E c image_paths caption) = Inr (Failure m)))"
proof -
  obtain x tr where run: "post_image_try E c image_paths caption [] = (x, tr)"
    by (cases "post_image_try E c image_paths caption []")
  with try_ok[OF assms, of c caption] have ok: "flow_ok (\<lambda>r. True) x" by simp
  show ?thesis
  proof (cases x)
    case (Next r)
    with run show ?thesis by (simp add: post_image_def)
  next
    case (Return r)
    with run show ?thesis by (simp add: post_image_def)
  next
    case (Raise e)
    show ?thesis
    proof (cases e)
      case (Py x)
      with ok Raise show ?thesis by simp
    next
      case (Req msg resp)
      with ok Raise have "error_response resp" by simp
      from handler_ok[OF this, of E msg] obtain m where
        "handle_request_exception E msg resp = Inr (Failure m)" by blast
      with run Raise Req show ?thesis by (simp add: post_image_def)
    qed
  qed
qed

theorem post_image_returns_record_witness:
  "(\<forall>tr rq. wire_protocol (server (example_env
        [ok_reply (with_id ''101''),
         error_reply 400 ''400 Client Error: Bad Request''
           (JObj [(''error'', JObj [(''message'', JStr ''Invalid URL'')])])]) tr rq))
   \<and> Many [''https://example.com/a.jpg'', ''https://example.com/b.jpg''] \<noteq> Many []
   \<and> (\<exists>m. fst (post_image (example_env
        [ok_reply (with_id ''101''),
         error_reply 400 ''400 Client Error: Bad Request''
           (JObj [(''error'', JObj [(''message'', JStr ''Invalid URL'')])])])
        example_client (Many [''https://example.com/a.jpg'', ''https://example.com/b.jpg'']) None)
      = Inr (Failure m))"
proof -
  let ?E = "example_env
        [ok_reply (with_id ''101''),
         error_reply 400 ''400 Client Error: Bad Request''
           (JObj [(''error'', JObj [(''message'', JStr ''Invalid URL'')])])]"
  let ?inp = "Many [''https://example.com/a.jpg'', ''https://example.com/b.jpg'']"
  have h: "\<forall>tr rq. wire_protocol (server ?E tr rq)"
    by (auto simp: example_env_def intro!: scripted_wire)
       (simp_all add: wire_protocol_def ok_reply_def error_reply_def with_id_def)
  have ne: "?inp \<noteq> Many []" by simp
  have raised: "fst (post_image_try ?E example_client ?inp None []) =
      Raise (Req ''400 Client Error: Bad Request''
        (Some \<lparr>status_code = 400, http_error_text = ''400 Client Error: Bad Request'',
              json_body = Inr (JObj [(''error'', JObj [(''message'', JStr ''Invalid URL'')])])\<rparr>))"
    by (simp add: run_defs)
  from post_image_returns_record[OF h ne, of example_client None] raised
  have "\<exists>m. fst (post_image ?E example_client ?inp None) = Inr (Failure m)"
    by blast
  with h ne show ?thesis by blast
qed

subsection \<open>The message of a structured error\<close>

text \<open>
  Claim C2 says that for an HTTP 400 with the body
  \<^verbatim>\<open>{"error": {"message": "Invalid URL"}}\<close> the error string of the failure record equals
  \<^verbatim>\<open>Invalid URL\<close>. The handler puts a fixed prefix in front of the extracted message, so
  the error string is the prefix followed by \<^verbatim>\<open>Invalid URL\<close>, and differs from
  \<^verbatim>\<open>Invalid URL\<close>.
\<close>

theorem structured_error_message_counterexample:
  "fst (post_image
         (example_env [error_reply 400 ''400 Client Error: Bad Request''
                         (JObj [(''error'', JObj [(''message'', JStr ''Invalid URL'')])])])
         example_client (One ''https://example.com/a.jpg'') (Some ''hello''))
     = Inr (Failure (error_prefix @ ''Invalid URL''))
   \<and> fst (post_image
         (example_env [error_reply 400 ''400 Client Error: Bad Request''
                         (JObj [(''error'', JObj [(''message'', JStr ''Invalid URL'')])])])
         example_client (One ''https://example.com/a.jpg'') (Some ''hello''))
     \<noteq> Inr (Failure ''Invalid URL'')"
  by (simp add: run_defs error_prefix_def)

text \<open>
  Claim C2, amended: when a call of the \<^verbatim>\<open>try\<close> body raises a request exception whose
  response body is \<^verbatim>\<open>{"error": {"message": "Invalid URL"}}\<close>, \<^verbatim>\<open>post_image\<close> returns
  the failure record whose error string is the fixed prefix of the handler followed by
  \<^verbatim>\<open>Invalid URL\<close>.
\<close>

theorem structured_error_message:
  assumes "fst (post_image_try E c image_paths caption []) = Raise (Req text (Some r))"
    and "json_body r = Inr (JObj [(''error'', JObj [(''message'', JStr ''Invalid URL'')])])"
  shows "fst (post_image E c image_paths caption) = Inr (Failure (error_prefix @ ''Invalid URL''))"
  using assms
  by (cases "post_image_try E c image_paths caption []")
     (simp add: post_image_def handle_request_exception_def py_format_def)

theorem structured_error_message_witness:
  "fst (post_image_try
         (example_env [error_reply 400 ''400 Client Error: Bad Request''
                         (JObj [(''error'', JObj [(''message'', JStr ''Invalid URL'')])])])
         example_client (One ''https://example.com/a.jpg'') (Some ''hello'') [])
     = Raise (Req ''400 Client Error: Bad Request''
        (Some \<lparr>status_code = 400, http_error_text = ''400 Client Error: Bad Request'',
              json_body = Inr (JObj [(''error'', JObj [(''message'', JStr ''Invalid URL'')])])\<rparr>))
   \<and> fst (post_image
         (example_env [error_reply 400 ''400 Client Error: Bad Request''
                         (JObj [(''error'', JObj [(''message'', JStr ''Invalid URL'')])])])
         example_client (One ''https://example.com/a.jpg'') (Some ''hello''))
     = Inr (Failure (error_prefix @ ''Invalid URL''))"
proof -
  let ?E = "example_env [error_reply 400 ''400 Client Error: Bad Request''
                         (JObj [(''error'', JObj [(''message'', JStr ''Invalid URL'')])])]"
  let ?r = "\<lparr>status_code = 400, http_error_text = ''400 Client Error: Bad Request'',
              json_body = Inr (JObj [(''error'', JObj [(''message'', JStr ''Invalid URL'')])])\<rparr>"
  have raised: "fst (post_image_try ?E example_client (One ''https://example.com/a.jpg'') (Some ''hello'') [])
     = Raise (Req ''400 Client Error: Bad Request'' (Some ?r))"
    by (simp add: run_defs)
  have body: "json_body ?r = Inr (JObj [(''error'', JObj [(''message'', JStr ''Invalid URL'')])])"
    by simp
  from structured_error_message[OF raised body] raised show ?thesis by blast
qed

subsection \<open>The carousel\<close>



text \<open>
  Claim C4: for more than one URL, if the response to item call \<open>n + 1\<close> (the responses
  before it containing an id) lacks the id, \<^verbatim>\<open>post_image\<close> returns the failure record
  whose message carries the number \<open>n + 1\<close>, and the requests issued are the first
  \<open>n + 1\<close> item calls only: no further item call, no container call, no publish call. The
  message determines the number of the item.
\<close>

theorem carousel_item_without_id:
  assumes "1 < length urls" and "n < length urls"
    and "\<forall>k<n. \<exists>j v.
           returns_json E (map (carousel_item_request c) (take k urls))
             (carousel_item_request c (urls ! k)) j \<and> has_id j v"
    and "returns_json E (map (carousel_item_request c) (take n urls))
           (carousel_item_request c (urls ! n)) j"
    and "lacks_id j"
  shows "post_image E c (Many urls) caption =
           (Inr (Failure (item_failed_message (Suc n))),
            map (carousel_item_request c) (take (Suc n) urls))
         \<and> (\<forall>m. item_failed_message m = item_failed_message (Suc n) \<longrightarrow> m = Suc n)"
proof -
  have "carousel_items E c 1 urls [] [] =
     (Return (Failure (item_failed_message (1 + n))),
      [] @ map (carousel_item_request c) (take (Suc n) urls))"
    by (rule carousel_items_stop) (use assms in auto)
  then show ?thesis using assms(1)
    by (auto simp: post_image_run build_container_def then_do_def dest: item_failed_message_inj)
qed

theorem carousel_item_without_id_witness:
  "post_image (example_env [ok_reply (with_id ''101''), ok_reply (JObj [])]) example_client
     (Many [''https://example.com/a.jpg'', ''https://example.com/b.jpg'', ''https://example.com/c.jpg''])
     (Some ''hello'') =
   (Inr (Failure (item_failed_message 2)),
    [carousel_item_request example_client ''https://example.com/a.jpg'',
     carousel_item_request example_client ''https://example.com/b.jpg''])"
proof -
  let ?urls = "[''https://example.com/a.jpg'', ''https://example.com/b.jpg'', ''https://example.com/c.jpg'']"
  let ?E = "example_env [ok_reply (with_id ''101''), ok_reply (JObj [])]"
  have h1: "1 < length ?urls" by simp
  have h2: "1 < length ?urls" by simp
  have h3: "\<forall>k<1. \<exists>j v.
           returns_json ?E (map (carousel_item_request example_client) (take k ?urls))
             (carousel_item_request example_client (?urls ! k)) j \<and> has_id j v"
    by (auto simp: example_defs)
  have h4: "returns_json ?E (map (carousel_item_request example_client) (take 1 ?urls))
           (carousel_item_request example_client (?urls ! 1)) (JObj [])"
    by (simp add: example_defs)
  have h5: "lacks_id (JObj [])" by simp
  from carousel_item_without_id[OF h1 h2 h3 h4 h5, of "Some ''hello''"]
  show ?thesis by (simp add: numeral_2_eq_2)
qed

subsection \<open>The caption\<close>



subsection \<open>A single image\<close>

text \<open>
  Claim C6: for one URL (a string or a one-element list) whose two responses contain an
  id, the requests issued are exactly two: the call to \<^verbatim>\<open>/media\<close> with the access
  token, the URL as \<open>image_url\<close> and the caption, and the call to
  \<^verbatim>\<open>/media_publish\<close> with the access token and the id of the container as
  \<open>creation_id\<close>; the result is the success record with the id of the publish response.
\<close>

theorem single_image_published:
  assumes "image_paths = One u \<or> image_paths = Many [u]"
    and "cap = (case caption of None \<Rightarrow> get_formatted_date (now E) | Some s \<Rightarrow> s)"
    and "returns_json E [] (single_media_request c u cap) container"
    and "has_id container creation_id"
    and "returns_json E [single_media_request c u cap] (publish_request c creation_id) publish_data"
    and "has_id publish_data post_id"
  shows "post_image E c image_paths caption =
     (Inr (Success post_id status_message),
      [\<lparr>url = base_url c @ ''/'' @ account_id c @ ''/media'',
        params = [(''access_token'', JStr (access_token c)),
                  (''image_url'', JStr u),
                  (''caption'', JStr cap)]\<rparr>,
       \<lparr>url = base_url c @ ''/'' @ account_id c @ ''/media_publish'',
        params = [(''access_token'', JStr (access_token c)),
                  (''creation_id'', creation_id)]\<rparr>])"
  using single_published[OF assms]
  by (simp add: single_media_request_def publish_request_def)

theorem single_image_published_witness:
  "post_image (example_env [ok_reply (with_id ''900''), ok_reply (with_id ''555'')]) example_client
     (One ''https://example.com/a.jpg'') None =
   (Inr (Success (JStr ''555'') status_message),
    [\<lparr>url = ''https://graph.facebook.com/v18.0/17841400000000000/media'',
      params = [(''access_token'', JStr ''token''),
                (''image_url'', JStr ''https://example.com/a.jpg''),
                (''caption'', JStr (''2024'' @ [CHR 0xEB, CHR 0x85, CHR 0x84] @ '' 03'' @
                   [CHR 0xEC, CHR 0x9B, CHR 0x94] @ '' 05'' @ [CHR 0xEC, CHR 0x9D, CHR 0xBC] @ '' '' @
                   [CHR 0xED, CHR 0x99, CHR 0x94, CHR 0xEC, CHR 0x9A, CHR 0x94, CHR 0xEC, CHR 0x9D,
                    CHR 0xBC] @
                   '' MQ '' @ [CHR 0xEA, CHR 0xB8, CHR 0x80, CHR 0xEB, CHR 0xA1, CHR 0x9C, CHR 0xEB,
                    CHR 0xB2, CHR 0x8C] @
                   '' '' @ [CHR 0xEC, CHR 0xA6, CHR 0x9D, CHR 0xEA, CHR 0xB6, CHR 0x8C, CHR 0xEA,
                    CHR 0xB0, CHR 0x80] @
                   '' '' @ [CHR 0xEB, CHR 0x89, CHR 0xB4, CHR 0xEC, CHR 0x8A, CHR 0xA4]))]\<rparr>,
     \<lparr>url = ''https://graph.facebook.com/v18.0/17841400000000000/media_publish'',
      params = [(''access_token'', JStr ''token''),
                (''creation_id'', JStr ''900'')]\<rparr>])"
proof -
  let ?E = "example_env [ok_reply (with_id ''900''), ok_reply (with_id ''555'')]"
  let ?u = "''https://example.com/a.jpg''"
  let ?cap = "get_formatted_date \<lparr>year = 2024, month = 3, day = 5, weekday = Tue\<rparr>"
  have h1: "One ?u = One ?u \<or> One ?u = Many [?u]" by simp
  have h2: "?cap = (case None of None \<Rightarrow> get_formatted_date (now ?E) | Some s \<Rightarrow> s)"
    by (simp add: example_env_def)
  have h3: "returns_json ?E [] (single_media_request example_client ?u ?cap) (with_id ''900'')"
    by (simp add: example_defs)
  have h4: "has_id (with_id ''900'') (JStr ''900'')" by (simp add: with_id_def)
  have h5: "returns_json ?E [single_media_request example_client ?u ?cap]
      (publish_request example_client (JStr ''900'')) (with_id ''555'')"
    by (simp add: example_defs)
  have h6: "has_id (with_id ''555'') (JStr ''555'')" by (simp add: with_id_def)
  from single_image_published[OF h1 h2 h3 h4 h5 h6] show ?thesis
    by (simp add: example_client_def example_date)
qed

subsection \<open>Missing ids\<close>



text \<open>
  Claim C8: if the container was created and the response to the publish call lacks the
  id, \<^verbatim>\<open>post_image\<close> returns the failure record with the post message, on the single
  and on the carousel branch.
\<close>

theorem publish_without_id:
  "((image_paths = One u \<or> image_paths = Many [u]) \<and>
    returns_json E [] (single_media_request c u
       (case caption of None \<Rightarrow> get_formatted_date (now E) | Some s \<Rightarrow> s)) container \<and>
    has_id container creation_id \<and>
    returns_json E [single_media_request c u
       (case caption of None \<Rightarrow> get_formatted_date (now E) | Some s \<Rightarrow> s)]
       (publish_request c creation_id) publish_data \<and>
    lacks_id publish_data
    \<longrightarrow> post_image E c image_paths caption =
          (Inr (Failure no_post_id_message),
           [single_media_request c u
              (case caption of None \<Rightarrow> get_formatted_date (now E) | Some s \<Rightarrow> s),
            publish_request c creation_id]))
   \<and>
   (1 < length urls \<and> length ids = length urls \<and>
    (\<forall>k<length urls. \<exists>j.
        returns_json E (map (carousel_item_request c) (take k urls))
          (carousel_item_request c (urls ! k)) j \<and> has_id j (JStr (ids ! k))) \<and>
    returns_json E (map (carousel_item_request c) urls)
      (carousel_container_request c (join '','' ids)
         (case caption of None \<Rightarrow> get_formatted_date (now E) | Some s \<Rightarrow> s)) container \<and>
    has_id container creation_id \<and>
    returns_json E (map (carousel_item_request c) urls @
      [carousel_container_request c (join '','' ids)
         (case caption of None \<Rightarrow> get_formatted_date (now E) | Some s \<Rightarrow> s)])
      (publish_request c creation_id) publish_data \<and>
    lacks_id publish_data
    \<longrightarrow> post_image E c (Many urls) caption =
          (Inr (Failure no_post_id_message),
           map (carousel_item_request c) urls @
           [carousel_container_request c (join '','' ids)
              (case caption of None \<Rightarrow> get_formatted_date (now E) | Some s \<Rightarrow> s),
            publish_request c creation_id]))"
proof (intro conjI impI)
  let ?cap = "case caption of None \<Rightarrow> get_formatted_date (now E) | Some s \<Rightarrow> s"
  let ?rq = "single_media_request c u ?cap"
  assume a: "(image_paths = One u \<or> image_paths = Many [u]) \<and>
    returns_json E [] ?rq container \<and> has_id container creation_id \<and>
    returns_json E [?rq] (publish_request c creation_id) publish_data \<and> lacks_id publish_data"
  then have p: "post E ?rq [] = (Next container, [] @ [?rq])"
    by (intro post_returns) simp
  have "publish_container E c container [?rq] =
      (Return (Failure no_post_id_message), [?rq] @ [publish_request c creation_id])"
    by (rule publish_no_post_id[where publish_data = publish_data]) (use a in simp_all)
  with a p show "post_image E c image_paths caption =
          (Inr (Failure no_post_id_message), [?rq, publish_request c creation_id])"
    by (auto simp: post_image_run build_single then_do_def)
next
  let ?cap = "case caption of None \<Rightarrow> get_formatted_date (now E) | Some s \<Rightarrow> s"
  let ?items = "map (carousel_item_request c) urls"
  let ?rq = "carousel_container_request c (join '','' ids) ?cap"
  assume a: "1 < length urls \<and> length ids = length urls \<and>
    (\<forall>k<length urls. \<exists>j.
        returns_json E (map (carousel_item_request c) (take k urls))
          (carousel_item_request c (urls ! k)) j \<and> has_id j (JStr (ids ! k))) \<and>
    returns_json E ?items ?rq container \<and> has_id container creation_id \<and>
    returns_json E (?items @ [?rq]) (publish_request c creation_id) publish_data \<and>
    lacks_id publish_data"
  have b: "build_container E c urls ?cap [] = post E ?rq ([] @ ?items)"
    by (rule build_carousel) (use a in auto)
  from a have p: "post E ?rq ?items = (Next container, ?items @ [?rq])"
    by (intro post_returns) simp
  have "publish_container E c container (?items @ [?rq]) =
      (Return (Failure no_post_id_message), (?items @ [?rq]) @ [publish_request c creation_id])"
    by (rule publish_no_post_id[where publish_data = publish_data]) (use a in simp_all)
  with b p show "post_image E c (Many urls) caption =
          (Inr (Failure no_post_id_message), ?items @ [?rq, publish_request c creation_id])"
    by (simp add: post_image_run then_do_def)
qed

theorem publish_without_id_witness:
  "post_image (example_env [ok_reply (with_id ''900''), ok_reply (JObj [])]) example_client
     (One ''https://example.com/a.jpg'') (Some ''hello'') =
   (Inr (Failure no_post_id_message),
    [single_media_request example_client ''https://example.com/a.jpg'' ''hello'',
     publish_request example_client (JStr ''900'')])
   \<and>
   post_image (example_env [ok_reply (with_id ''101''), ok_reply (with_id ''102''),
                            ok_reply (with_id ''900''), ok_reply (JObj [])])
     example_client (Many [''https://example.com/a.jpg'', ''https://example.com/b.jpg''])
     (Some ''hello'') =
   (Inr (Failure no_post_id_message),
    [carousel_item_request example_client ''https://example.com/a.jpg'',
     carousel_item_request example_client ''https://example.com/b.jpg'',
     carousel_container_request example_client ''101,102'' ''hello'',
     publish_request example_client (JStr ''900'')])"
proof -
  let ?a = "''https://example.com/a.jpg''"
  let ?urls = "[''https://example.com/a.jpg'', ''https://example.com/b.jpg'']"
  let ?E1 = "example_env [ok_reply (with_id ''900''), ok_reply (JObj [])]"
  let ?E2 = "example_env [ok_reply (with_id ''101''), ok_reply (with_id ''102''),
                            ok_reply (with_id ''900''), ok_reply (JObj [])]"
  have s: "(One ?a = One ?a \<or> One ?a = Many [?a]) \<and>
      returns_json ?E1 [] (single_media_request example_client ?a
         (case Some ''hello'' of None \<Rightarrow> get_formatted_date (now ?E1) | Some s \<Rightarrow> s))
         (with_id ''900'') \<and>
      has_id (with_id ''900'') (JStr ''900'') \<and>
      returns_json ?E1 [single_media_request example_client ?a
         (case Some ''hello'' of None \<Rightarrow> get_formatted_date (now ?E1) | Some s \<Rightarrow> s)]
         (publish_request example_client (JStr ''900'')) (JObj []) \<and>
      lacks_id (JObj [])"
    by (simp add: example_defs)
  have m: "1 < length ?urls \<and> length [''101'', ''102''] = length ?urls \<and>
      (\<forall>k<length ?urls. \<exists>j.
        returns_json ?E2 (map (carousel_item_request example_client) (take k ?urls))
          (carousel_item_request example_client (?urls ! k)) j \<and>
        has_id j (JStr ([''101'', ''102''] ! k))) \<and>
      returns_json ?E2 (map (carousel_item_request example_client) ?urls)
        (carousel_container_request example_client (join '','' [''101'', ''102''])
           (case Some ''hello'' of None \<Rightarrow> get_formatted_date (now ?E2) | Some s \<Rightarrow> s))
        (with_id ''900'') \<and>
      has_id (with_id ''900'') (JStr ''900'') \<and>
      returns_json ?E2 (map (carousel_item_request example_client) ?urls @
        [carousel_container_request example_client (join '','' [''101'', ''102''])
           (case Some ''hello'' of None \<Rightarrow> get_formatted_date (now ?E2) | Some s \<Rightarrow> s)])
        (publish_request example_client (JStr ''900'')) (JObj []) \<and>
      lacks_id (JObj [])"
    using example_items[where rs = "[ok_reply (with_id ''900''), ok_reply (JObj [])]"]
    by (simp add: example_defs)
  from publish_without_id[where image_paths = "One ?a" and u = ?a and E = ?E1
      and c = example_client and caption = "Some ''hello''" and container = "with_id ''900''"
      and creation_id = "JStr ''900''" and publish_data = "JObj []"] s
  have one: "post_image ?E1 example_client (One ?a) (Some ''hello'') =
     (Inr (Failure no_post_id_message),
      [single_media_request example_client ?a ''hello'',
       publish_request example_client (JStr ''900'')])"
    by simp
  from publish_without_id[where urls = ?urls and ids = "[''101'', ''102'']" and E = ?E2
      and c = example_client and caption = "Some ''hello''" and container = "with_id ''900''"
      and creation_id = "JStr ''900''" and publish_data = "JObj []"] m
  have two: "post_image ?E2 example_client (Many ?urls) (Some ''hello'') =
     (Inr (Failure no_post_id_message),
      map (carousel_item_request example_client) ?urls @
      [carousel_container_request example_client (join '','' [''101'', ''102'']) ''hello'',
       publish_request example_client (JStr ''900'')])"
    by simp
  from one two show ?thesis by simp
qed

subsection \<open>Construction\<close>

text \<open>
  Claim C9: \<^verbatim>\<open>__init__\<close> raises the \<^verbatim>\<open>ValueError\<close> exactly when the access token or
  the account identifier is missing or empty, it raises nothing else, and with both
  non-empty it gives the client that stores them.
\<close>

theorem init_raises_iff:
  "(init token account = Inl (ValueError credentials_message)
      \<longleftrightarrow> token = None \<or> token = Some [] \<or> account = None \<or> account = Some [])
   \<and> (\<forall>x. init token account = Inl x \<longrightarrow> x = ValueError credentials_message)
   \<and> (\<forall>t a. token = Some t \<and> t \<noteq> [] \<and> account = Some a \<and> a \<noteq> [] \<longrightarrow>
        (\<exists>cl. init token account = Inr cl \<and> access_token cl = t \<and> account_id cl = a))"
  by (auto simp: init_def py_not_def split: option.splits)

theorem init_raises_iff_witness:
  "init None (Some ''17841400000000000'') = Inl (ValueError credentials_message)
   \<and> init (Some ''token'') (Some []) = Inl (ValueError credentials_message)
   \<and> (\<exists>cl. init (Some ''token'') (Some ''17841400000000000'') = Inr cl
        \<and> access_token cl = ''token'' \<and> account_id cl = ''17841400000000000'')"
proof -
  have a: "init None (Some ''17841400000000000'') = Inl (ValueError credentials_message)"
    using init_raises_iff[of None "Some ''17841400000000000''", THEN conjunct1] by simp
  have b: "init (Some ''token'') (Some []) = Inl (ValueError credentials_message)"
    using init_raises_iff[of "Some ''token''" "Some []", THEN conjunct1] by simp
  have c: "\<exists>cl. init (Some ''token'') (Some ''17841400000000000'') = Inr cl
        \<and> access_token cl = ''token'' \<and> account_id cl = ''17841400000000000''"
    using init_raises_iff[of "Some ''token''" "Some ''17841400000000000''",
        THEN conjunct2, THEN conjunct2, rule_format, of "''token''" "''17841400000000000''"]
    by simp
  from a b c show ?thesis by (intro conjI)
qed

subsection \<open>The empty list\<close>

text \<open>
  Claim C10: for the empty list of URLs \<^verbatim>\<open>image_paths[0]\<close> raises \<^verbatim>\<open>IndexError\<close>, which
  the handler for request exceptions does not catch: it leaves \<^verbatim>\<open>post_image\<close>, and no
  request is issued.
\<close>

theorem empty_list_raises_index_error:
  "post_image E c (Many []) caption = (Inl IndexError, [])"
  by (simp add: post_image_run build_container_def then_do_def lift_py_def py_first_def)

end
